theory Spec2Isabelle
  imports Main
begin

section \<open>The script \<^verbatim>\<open>main.py\<close>\<close>

text \<open>
  The repository is one straight-line Python script. It loads a dotenv file, points
  mlflow at a file store under the working directory, selects the experiment
  \<^verbatim>\<open>Groq\<close>, switches on mlflow's Groq autologging, builds a Groq client from the
  environment's API key, sends one chat-completion request and prints the content of
  the first choice of the reply.

  The script defines no function of its own: everything it does is a call into a
  library (dotenv, pathlib, mlflow, os, groq) or a Python builtin. The model therefore
  keeps the script's control flow and data exactly and takes the libraries as a
  parameter: a record \<open>libs\<close> that says, for each library call the script makes, what
  the call returns or which exception it raises. The script has no \<^verbatim>\<open>try\<close>, so the
  first exception ends the run; the model returns it as \<open>Inl\<close> together with the world
  as it stood at that moment. The \<^verbatim>\<open>import\<close> statements of lines 1 to 5 are taken to
  have succeeded: the model starts at line 7.
\<close>

subsection \<open>Data\<close>

text \<open>
  Exceptions. \<open>IndexError\<close> is what Python raises for a list index out of range;
  \<open>Raised name\<close> stands for any exception a library call raises.
\<close>

datatype error = IndexError | Raised string

text \<open>
  The keyword arguments of \<^verbatim>\<open>client.chat.completions.create\<close> (lines 20 to 28): a model
  name and a list of messages, each message a dict literal written as its key/value pairs
  in source order.
\<close>

record request =
  model :: string
  messages :: "(string \<times> string) list list"

text \<open>
  The reply, as far as the script reads it (line 30):
  \<^verbatim>\<open>message.choices[0].message.content\<close>. The reply's classes belong to the groq
  library; the content is taken to be text, as the spec gives the generated content.
\<close>

record completion_message =
  content :: string

record choice =
  message :: completion_message

record chat_completion =
  choices :: "choice list"

text \<open>The object \<^verbatim>\<open>groq.Groq(api_key=...)\<close> constructs (line 17).\<close>

datatype client = Groq (api_key: "string option")

text \<open>The calls the script can issue to the outside, with their arguments.\<close>

datatype call =
    LoadDotenv
  | PathCwd
  | SetTrackingUri string
  | SetExperiment string
  | GroqAutolog
  | Getenv string
  | NewGroq "string option"
  | ChatCreate request
  | Print string

text \<open>
  Modelled from the spec: mlflow's process-wide tracking configuration, which lives in
  the mlflow library and not in the script. The spec calls it global mutable state that
  holds the tracking URI and the experiment name; \<open>groq_autolog\<close> says whether the
  Groq autologging has been switched on. \<open>None\<close> and \<open>False\<close> mean that the script has
  not set the value.
\<close>

record tracking =
  tracking_uri :: "string option"
  experiment_name :: "string option"
  groq_autolog :: bool

text \<open>
  The process as the script can change it: mlflow's configuration, the trace of the
  calls issued so far (oldest first) and the text written to standard output.
\<close>

record world =
  mlflow :: tracking
  calls :: "call list"
  stdout :: string

definition startup :: world where
  "startup =
     \<lparr>mlflow = \<lparr>tracking_uri = None, experiment_name = None, groq_autolog = False\<rparr>,
      calls = [], stdout = []\<rparr>"

text \<open>
  The libraries, as the script meets them in one run. A procedure's outcome is
  \<open>Inr ()\<close> when it returns and \<open>Inl e\<close> when it raises \<open>e\<close>. \<^verbatim>\<open>os.getenv\<close> returns
  \<^verbatim>\<open>None\<close> for a missing variable and does not raise. \<open>lib_truediv p s\<close> is the text of
  the path \<^verbatim>\<open>p / s\<close>. The builtin \<^verbatim>\<open>print\<close> is among them, since it can raise as well
  (a \<^verbatim>\<open>UnicodeEncodeError\<close> when standard output cannot encode the text, an
  \<^verbatim>\<open>OSError\<close> when it is closed): \<open>lib_print s\<close> is \<open>Inr ()\<close> when \<^verbatim>\<open>print(s)\<close> returns,
  and \<open>Inl (e, written)\<close> when it raises \<open>e\<close> after \<open>written\<close> has reached standard
  output.
\<close>

record libs =
  lib_load_dotenv :: "error + unit"
  lib_cwd :: "error + string"
  lib_truediv :: "string \<Rightarrow> string \<Rightarrow> string"
  lib_set_tracking_uri :: "string \<Rightarrow> error + unit"
  lib_set_experiment :: "string \<Rightarrow> error + unit"
  lib_autolog :: "error + unit"
  lib_getenv :: "string \<Rightarrow> string option"
  lib_Groq :: "string option \<Rightarrow> error + unit"
  lib_create :: "client \<Rightarrow> request \<Rightarrow> error + chat_completion"
  lib_print :: "string \<Rightarrow> (error \<times> string) + unit"

subsection \<open>Running statements in sequence\<close>

type_synonym 'a io = "world \<Rightarrow> (error + 'a) \<times> world"

text \<open>One statement after another: an exception in the first skips the second.\<close>

definition bind_io :: "'a io \<Rightarrow> ('a \<Rightarrow> 'b io) \<Rightarrow> 'b io" where
  "bind_io m f w = (case m w of (Inl e, w') \<Rightarrow> (Inl e, w') | (Inr a, w') \<Rightarrow> f a w')"

text \<open>A library call: it is recorded in the trace, then returns or raises.\<close>

definition call_lib :: "call \<Rightarrow> error + 'a \<Rightarrow> 'a io" where
  "call_lib c r w = (r, w\<lparr>calls := calls w @ [c]\<rparr>)"

subsection \<open>The library calls and builtins the script uses\<close>

definition dotenv_load_dotenv :: "libs \<Rightarrow> unit io" where
  "dotenv_load_dotenv L = call_lib LoadDotenv (lib_load_dotenv L)"

definition pathlib_Path_cwd :: "libs \<Rightarrow> string io" where
  "pathlib_Path_cwd L = call_lib PathCwd (lib_cwd L)"

definition mlflow_set_tracking_uri :: "libs \<Rightarrow> string \<Rightarrow> unit io" where
  "mlflow_set_tracking_uri L uri =
     bind_io (call_lib (SetTrackingUri uri) (lib_set_tracking_uri L uri))
       (\<lambda>_ w. (Inr (), w\<lparr>mlflow := (mlflow w)\<lparr>tracking_uri := Some uri\<rparr>\<rparr>))"

definition mlflow_set_experiment :: "libs \<Rightarrow> string \<Rightarrow> unit io" where
  "mlflow_set_experiment L name =
     bind_io (call_lib (SetExperiment name) (lib_set_experiment L name))
       (\<lambda>_ w. (Inr (), w\<lparr>mlflow := (mlflow w)\<lparr>experiment_name := Some name\<rparr>\<rparr>))"

definition mlflow_groq_autolog :: "libs \<Rightarrow> unit io" where
  "mlflow_groq_autolog L =
     bind_io (call_lib GroqAutolog (lib_autolog L))
       (\<lambda>_ w. (Inr (), w\<lparr>mlflow := (mlflow w)\<lparr>groq_autolog := True\<rparr>\<rparr>))"

definition os_getenv :: "libs \<Rightarrow> string \<Rightarrow> string option io" where
  "os_getenv L name = call_lib (Getenv name) (Inr (lib_getenv L name))"

definition groq_Groq :: "libs \<Rightarrow> string option \<Rightarrow> client io" where
  "groq_Groq L key =
     bind_io (call_lib (NewGroq key) (lib_Groq L key)) (\<lambda>_ w. (Inr (Groq key), w))"

definition chat_completions_create :: "libs \<Rightarrow> client \<Rightarrow> request \<Rightarrow> chat_completion io" where
  "chat_completions_create L c r = call_lib (ChatCreate r) (lib_create L c r)"

text \<open>
  Python's \<^verbatim>\<open>xs[i]\<close> on a list: a negative index counts from the end, and an index
  outside the list raises \<^verbatim>\<open>IndexError\<close>.
\<close>

definition py_getitem :: "'a list \<Rightarrow> int \<Rightarrow> error + 'a" where
  "py_getitem xs i =
     (if 0 \<le> i \<and> i < int (length xs) then Inr (xs ! nat i)
      else if i < 0 \<and> - int (length xs) \<le> i then Inr (xs ! nat (int (length xs) + i))
      else Inl IndexError)"

text \<open>A step that touches nothing outside: it only returns or raises.\<close>

definition pure_io :: "error + 'a \<Rightarrow> 'a io" where
  "pure_io r w = (r, w)"

text \<open>
  \<^verbatim>\<open>print(s)\<close>: when it returns, the text and a newline have been written to standard
  output; when it raises, what it had written by then has.
\<close>

definition py_print :: "libs \<Rightarrow> string \<Rightarrow> unit io" where
  "py_print L s w =
     (case lib_print L s of
        Inl (e, written) \<Rightarrow>
          (Inl e, w\<lparr>calls := calls w @ [Print s], stdout := stdout w @ written\<rparr>)
      | Inr u \<Rightarrow>
          (Inr (), w\<lparr>calls := calls w @ [Print s], stdout := stdout w @ s @ [CHR 0x0A]\<rparr>))"

subsection \<open>The script\<close>

text \<open>The f-string of line 11: \<^verbatim>\<open>f"file://{pathlib.Path.cwd() / 'mlruns'}"\<close>.\<close>

definition mlruns_uri :: "libs \<Rightarrow> string \<Rightarrow> string" where
  "mlruns_uri L cwd = ''file://'' @ lib_truediv L cwd ''mlruns''"

text \<open>The request of lines 20 to 28.\<close>

definition create_request :: request where
  "create_request =
     \<lparr>model = ''llama-3.1-8b-instant'',
      messages = [[(''role'', ''user''),
                   (''content'', ''Explain the importance of low latency LLMs.'')]]\<rparr>"

text \<open>
  The module's top level, lines 7 to 30, statement by statement. Arguments are evaluated
  before the call they are passed to, as in Python.
\<close>

definition main_py :: "libs \<Rightarrow> unit io" where
  "main_py L =
     bind_io (dotenv_load_dotenv L) (\<lambda>_.
     bind_io (pathlib_Path_cwd L) (\<lambda>cwd.
     bind_io (mlflow_set_tracking_uri L (mlruns_uri L cwd)) (\<lambda>_.
     bind_io (mlflow_set_experiment L ''Groq'') (\<lambda>_.
     bind_io (mlflow_groq_autolog L) (\<lambda>_.
     bind_io (os_getenv L ''GROQ_API_KEY'') (\<lambda>key.
     bind_io (groq_Groq L key) (\<lambda>client.
     bind_io (chat_completions_create L client create_request) (\<lambda>message.
     bind_io (pure_io (py_getitem (choices message) 0)) (\<lambda>first.
     py_print L (content (choice.message first)))))))))))"

subsection \<open>What a run leaves behind\<close>

text \<open>A run of the script from a fresh process: what it ends with, and the process then.\<close>

definition outcome :: "libs \<Rightarrow> error + unit" where
  "outcome L = fst (main_py L startup)"

definition final_world :: "libs \<Rightarrow> world" where
  "final_world L = snd (main_py L startup)"

text \<open>The chat-completion requests of a trace, and the texts it printed, in order.\<close>

fun requests_of :: "call list \<Rightarrow> request list" where
  "requests_of [] = []"
| "requests_of (ChatCreate r # cs) = r # requests_of cs"
| "requests_of (_ # cs) = requests_of cs"

fun printed_of :: "call list \<Rightarrow> string list" where
  "printed_of [] = []"
| "printed_of (Print s # cs) = s # printed_of cs"
| "printed_of (_ # cs) = printed_of cs"

fun is_set_tracking_uri :: "call \<Rightarrow> bool" where
  "is_set_tracking_uri (SetTrackingUri _) = True"
| "is_set_tracking_uri _ = False"

fun is_set_experiment :: "call \<Rightarrow> bool" where
  "is_set_experiment (SetExperiment _) = True"
| "is_set_experiment _ = False"

text \<open>The client of line 17, built from the environment's \<^verbatim>\<open>GROQ_API_KEY\<close>.\<close>

definition env_client :: "libs \<Rightarrow> client" where
  "env_client L = Groq (lib_getenv L ''GROQ_API_KEY'')"

text \<open>
  Lines 7 to 17 run through: every library call before the request returns, the working
  directory being \<open>cwd\<close>.
\<close>

definition setup_returns :: "libs \<Rightarrow> string \<Rightarrow> bool" where
  "setup_returns L cwd =
     (lib_load_dotenv L = Inr () \<and> lib_cwd L = Inr cwd \<and>
      lib_set_tracking_uri L (mlruns_uri L cwd) = Inr () \<and>
      lib_set_experiment L ''Groq'' = Inr () \<and>
      lib_autolog L = Inr () \<and>
      lib_Groq L (lib_getenv L ''GROQ_API_KEY'') = Inr ())"

text \<open>The calls of lines 7 to 17, and mlflow's configuration after them.\<close>

definition setup_calls :: "libs \<Rightarrow> string \<Rightarrow> call list" where
  "setup_calls L cwd =
     [LoadDotenv, PathCwd, SetTrackingUri (mlruns_uri L cwd), SetExperiment ''Groq'',
      GroqAutolog, Getenv ''GROQ_API_KEY'', NewGroq (lib_getenv L ''GROQ_API_KEY'')]"

definition configured :: "libs \<Rightarrow> string \<Rightarrow> tracking" where
  "configured L cwd =
     \<lparr>tracking_uri = Some (mlruns_uri L cwd), experiment_name = Some ''Groq'',
      groq_autolog = True\<rparr>"

subsection \<open>A concrete environment\<close>

text \<open>
  Libraries that all return, in the directory \<^verbatim>\<open>/srv/app\<close> with an API key set; the
  upstream service answers the request with \<open>reply\<close>. In \<open>demo_libs_ascii\<close> standard
  output cannot encode the text and \<^verbatim>\<open>print\<close> raises before writing anything.
\<close>

definition demo_libs :: "error + chat_completion \<Rightarrow> libs" where
  "demo_libs reply =
     \<lparr>lib_load_dotenv = Inr (), lib_cwd = Inr ''/srv/app'',
      lib_truediv = (\<lambda>p s. p @ ''/'' @ s),
      lib_set_tracking_uri = (\<lambda>_. Inr ()), lib_set_experiment = (\<lambda>_. Inr ()),
      lib_autolog = Inr (), lib_getenv = (\<lambda>_. Some ''gsk-test''),
      lib_Groq = (\<lambda>_. Inr ()), lib_create = (\<lambda>_ _. reply),
      lib_print = (\<lambda>_. Inr ())\<rparr>"


definition demo_reply :: chat_completion where
  "demo_reply = \<lparr>choices = [\<lparr>message = \<lparr>content = ''Low latency matters.''\<rparr>\<rparr>]\<rparr>"

definition demo_reply2 :: chat_completion where
  "demo_reply2 =
     \<lparr>choices = [\<lparr>message = \<lparr>content = ''First answer.''\<rparr>\<rparr>,
                 \<lparr>message = \<lparr>content = ''Second answer.''\<rparr>\<rparr>]\<rparr>"

section \<open>Properties of the script\<close>

subsection \<open>The run after a clean setup\<close>

lemmas step_defs =
  bind_io_def call_lib_def pure_io_def py_print_def dotenv_load_dotenv_def
  pathlib_Path_cwd_def mlflow_set_tracking_uri_def mlflow_set_experiment_def
  mlflow_groq_autolog_def os_getenv_def groq_Groq_def chat_completions_create_def

text \<open>
  Once the setup has returned, the run is decided by the reply to the one request, by the
  index into its choices and by what \<^verbatim>\<open>print\<close> does.
\<close>

lemma main_py_after_setup:
  assumes "setup_returns L cwd"
  shows "main_py L startup =
    (case lib_create L (env_client L) create_request of
       Inl e \<Rightarrow>
         (Inl e, \<lparr>mlflow = configured L cwd,
                  calls = setup_calls L cwd @ [ChatCreate create_request], stdout = []\<rparr>)
     | Inr reply \<Rightarrow>
         (case py_getitem (choices reply) 0 of
            Inl e \<Rightarrow>
              (Inl e, \<lparr>mlflow = configured L cwd,
                       calls = setup_calls L cwd @ [ChatCreate create_request], stdout = []\<rparr>)
          | Inr first \<Rightarrow>
              (case lib_print L (content (choice.message first)) of
                 Inl (e, written) \<Rightarrow>
                   (Inl e, \<lparr>mlflow = configured L cwd,
                            calls = setup_calls L cwd @
                              [ChatCreate create_request, Print (content (choice.message first))],
                            stdout = written\<rparr>)
               | Inr u \<Rightarrow>
                   (Inr (), \<lparr>mlflow = configured L cwd,
                             calls = setup_calls L cwd @
                               [ChatCreate create_request, Print (content (choice.message first))],
                             stdout = content (choice.message first) @ [CHR 0x0A]\<rparr>))))"
  using assms
  by (simp add: main_py_def step_defs setup_returns_def env_client_def startup_def
        setup_calls_def configured_def split: sum.splits prod.splits)

lemma py_getitem_0: "py_getitem xs 0 = (case xs of [] \<Rightarrow> Inl IndexError | x # _ \<Rightarrow> Inr x)"
  by (simp add: py_getitem_def split: list.splits)

lemma demo_setup: "setup_returns (demo_libs reply) ''/srv/app''"
  by (simp add: setup_returns_def demo_libs_def)

lemma demo_create: "lib_create (demo_libs reply) (env_client (demo_libs reply)) r = reply"
  by (simp add: demo_libs_def)

lemma demo_print: "lib_print (demo_libs reply) s = Inr ()"
  by (simp add: demo_libs_def)




subsection \<open>The request and the printed reply\<close>



text \<open>In no run at all, whatever the libraries do, does the script issue a second request.\<close>

lemma at_most_one_request: "length (requests_of (calls (final_world L))) \<le> 1"
  by (simp add: final_world_def main_py_def step_defs startup_def
        split: sum.splits prod.splits)

subsection \<open>A failing request\<close>

text \<open>
  C8. Nothing handles a failure of the chat-completion call. When the setup has returned
  and the call raises \<open>e\<close>, the script ends with that same exception \<open>e\<close>; the call is
  the last thing the script did, it was issued once (no retry, no fallback call after
  it), and nothing was printed.
\<close>

theorem create_failure_propagates:
  assumes "setup_returns L cwd"
    and "lib_create L (env_client L) create_request = Inl e"
  shows "outcome L = Inl e \<and>
    calls (final_world L) = setup_calls L cwd @ [ChatCreate create_request] \<and>
    requests_of (calls (final_world L)) = [create_request] \<and>
    printed_of (calls (final_world L)) = [] \<and>
    stdout (final_world L) = []"
  using assms
  by (simp add: outcome_def final_world_def main_py_after_setup setup_calls_def)

theorem create_failure_propagates_witness:
  "setup_returns (demo_libs (Inl (Raised ''APITimeoutError''))) ''/srv/app'' \<and>
   lib_create (demo_libs (Inl (Raised ''APITimeoutError'')))
     (env_client (demo_libs (Inl (Raised ''APITimeoutError'')))) create_request =
     Inl (Raised ''APITimeoutError'') \<and>
   outcome (demo_libs (Inl (Raised ''APITimeoutError''))) = Inl (Raised ''APITimeoutError'') \<and>
   requests_of (calls (final_world (demo_libs (Inl (Raised ''APITimeoutError''))))) =
     [create_request] \<and>
   stdout (final_world (demo_libs (Inl (Raised ''APITimeoutError'')))) = []"
proof -
  have s: "setup_returns (demo_libs (Inl (Raised ''APITimeoutError''))) ''/srv/app''"
    by (rule demo_setup)
  have c: "lib_create (demo_libs (Inl (Raised ''APITimeoutError'')))
     (env_client (demo_libs (Inl (Raised ''APITimeoutError'')))) create_request =
     Inl (Raised ''APITimeoutError'')"
    by (rule demo_create)
  from create_failure_propagates [OF s c] s c show ?thesis
    by (simp add: setup_calls_def)
qed

subsection \<open>A reply without choices\<close>

text \<open>
  C10. Line 30 reads \<^verbatim>\<open>message.choices[0]\<close> without a guard, and passes the content of
  that one choice to \<^verbatim>\<open>print\<close>. Take a run in which the setup has returned and the
  upstream service has answered the request with \<open>reply\<close>. When the reply's list of
  choices is empty, the index raises \<^verbatim>\<open>IndexError\<close> and the script ends with it: the
  request is the last call of the trace, so the failure is in the print statement of line
  30, after the request and before \<^verbatim>\<open>print\<close> itself is called, and nothing is printed.
  When the list is not empty, the index gives its first element, and the one text passed
  to \<^verbatim>\<open>print\<close> is the content of that first choice, whatever the other choices are.
\<close>

theorem empty_choices_index_error:
  assumes "setup_returns L cwd"
    and "lib_create L (env_client L) create_request = Inr reply"
  shows "(choices reply = [] \<longrightarrow>
       py_getitem (choices reply) 0 = Inl IndexError \<and>
       outcome L = Inl IndexError \<and>
       calls (final_world L) = setup_calls L cwd @ [ChatCreate create_request] \<and>
       printed_of (calls (final_world L)) = [] \<and>
       stdout (final_world L) = []) \<and>
    (\<forall>first others. choices reply = first # others \<longrightarrow>
       py_getitem (choices reply) 0 = Inr first \<and>
       calls (final_world L) =
         setup_calls L cwd @
           [ChatCreate create_request, Print (content (choice.message first))] \<and>
       printed_of (calls (final_world L)) = [content (choice.message first)])"
  using assms
  by (simp add: outcome_def final_world_def main_py_after_setup py_getitem_0 setup_calls_def
        split: sum.splits prod.splits)

theorem empty_choices_index_error_witness:
  "setup_returns (demo_libs (Inr \<lparr>choices = []\<rparr>)) ''/srv/app'' \<and>
   lib_create (demo_libs (Inr \<lparr>choices = []\<rparr>)) (env_client (demo_libs (Inr \<lparr>choices = []\<rparr>)))
     create_request = Inr \<lparr>choices = []\<rparr> \<and>
   choices \<lparr>choices = []\<rparr> = [] \<and>
   outcome (demo_libs (Inr \<lparr>choices = []\<rparr>)) = Inl IndexError \<and>
   calls (final_world (demo_libs (Inr \<lparr>choices = []\<rparr>))) =
     setup_calls (demo_libs (Inr \<lparr>choices = []\<rparr>)) ''/srv/app'' @ [ChatCreate create_request] \<and>
   printed_of (calls (final_world (demo_libs (Inr \<lparr>choices = []\<rparr>)))) = [] \<and>
   stdout (final_world (demo_libs (Inr \<lparr>choices = []\<rparr>))) = [] \<and>
   setup_returns (demo_libs (Inr demo_reply2)) ''/srv/app'' \<and>
   lib_create (demo_libs (Inr demo_reply2)) (env_client (demo_libs (Inr demo_reply2)))
     create_request = Inr demo_reply2 \<and>
   choices demo_reply2 =
     [\<lparr>message = \<lparr>content = ''First answer.''\<rparr>\<rparr>,
      \<lparr>message = \<lparr>content = ''Second answer.''\<rparr>\<rparr>] \<and>
   printed_of (calls (final_world (demo_libs (Inr demo_reply2)))) = [''First answer.'']"
proof -
  have s: "setup_returns (demo_libs (Inr \<lparr>choices = []\<rparr>)) ''/srv/app''"
    by (rule demo_setup)
  have c: "lib_create (demo_libs (Inr \<lparr>choices = []\<rparr>))
     (env_client (demo_libs (Inr \<lparr>choices = []\<rparr>))) create_request = Inr \<lparr>choices = []\<rparr>"
    by (rule demo_create)
  have r: "choices \<lparr>choices = []\<rparr> = []"
    by simp
  have s2: "setup_returns (demo_libs (Inr demo_reply2)) ''/srv/app''"
    by (rule demo_setup)
  have c2: "lib_create (demo_libs (Inr demo_reply2)) (env_client (demo_libs (Inr demo_reply2)))
     create_request = Inr demo_reply2"
    by (rule demo_create)
  have r2: "choices demo_reply2 =
     \<lparr>message = \<lparr>content = ''First answer.''\<rparr>\<rparr> #
       [\<lparr>message = \<lparr>content = ''Second answer.''\<rparr>\<rparr>]"
    by (simp add: demo_reply2_def)
  from empty_choices_index_error [OF s c] r have empty:
    "outcome (demo_libs (Inr \<lparr>choices = []\<rparr>)) = Inl IndexError"
    "calls (final_world (demo_libs (Inr \<lparr>choices = []\<rparr>))) =
       setup_calls (demo_libs (Inr \<lparr>choices = []\<rparr>)) ''/srv/app'' @ [ChatCreate create_request]"
    "printed_of (calls (final_world (demo_libs (Inr \<lparr>choices = []\<rparr>)))) = []"
    "stdout (final_world (demo_libs (Inr \<lparr>choices = []\<rparr>))) = []"
    by (simp_all add: setup_calls_def)
  from empty_choices_index_error [OF s2 c2] r2 have two:
    "printed_of (calls (final_world (demo_libs (Inr demo_reply2)))) = [''First answer.'']"
    by (simp add: setup_calls_def)
  from s c r s2 c2 r2 empty two show ?thesis
    by simp
qed

subsection \<open>The tracking configuration comes first\<close>

text \<open>
  C9. In every run, whatever the libraries do, the tracking URI is set at most once and
  the experiment name is set at most once. In every run that gets as far as switching on
  the autologging or issuing the chat-completion request, the trace starts with loading
  the dotenv file, reading the working directory, setting the tracking URI, setting the
  experiment \<^verbatim>\<open>Groq\<close> and switching on the autologging, in this order; neither value is
  set again in the rest of the trace (where the request is), so each is set exactly once
  in the run; and mlflow's configuration holds both values at the end of the run.
\<close>

theorem tracking_set_once_before_autolog:
  "length (filter is_set_tracking_uri (calls (final_world L))) \<le> 1 \<and>
   length (filter is_set_experiment (calls (final_world L))) \<le> 1 \<and>
   (GroqAutolog \<in> set (calls (final_world L)) \<or> ChatCreate r \<in> set (calls (final_world L)) \<longrightarrow>
     (\<exists>cwd rest. lib_cwd L = Inr cwd \<and>
        calls (final_world L) =
          [LoadDotenv, PathCwd, SetTrackingUri (mlruns_uri L cwd), SetExperiment ''Groq'',
           GroqAutolog] @ rest \<and>
        filter is_set_tracking_uri rest = [] \<and> filter is_set_experiment rest = [] \<and>
        length (filter is_set_tracking_uri (calls (final_world L))) = 1 \<and>
        length (filter is_set_experiment (calls (final_world L))) = 1 \<and>
        tracking_uri (mlflow (final_world L)) = Some (mlruns_uri L cwd) \<and>
        experiment_name (mlflow (final_world L)) = Some ''Groq''))"
proof (cases "lib_load_dotenv L")
  case (Inl e)
  then show ?thesis
    by (simp add: final_world_def main_py_def step_defs startup_def)
next
  case dotenv: (Inr u)
  show ?thesis
  proof (cases "lib_cwd L")
    case (Inl e)
    with dotenv show ?thesis
      by (simp add: final_world_def main_py_def step_defs startup_def)
  next
    case cwd: (Inr d)
    show ?thesis
    proof (cases "lib_set_tracking_uri L (mlruns_uri L d)")
      case (Inl e)
      with dotenv cwd show ?thesis
        by (simp add: final_world_def main_py_def step_defs startup_def)
    next
      case uri: (Inr u1)
      show ?thesis
      proof (cases "lib_set_experiment L ''Groq''")
        case (Inl e)
        with dotenv cwd uri show ?thesis
          by (simp add: final_world_def main_py_def step_defs startup_def)
      next
        case exp: (Inr u2)
        show ?thesis
        proof (cases "lib_autolog L")
          case (Inl e)
          with dotenv cwd uri exp show ?thesis
            by (simp add: final_world_def main_py_def step_defs startup_def)
        next
          case autolog: (Inr u3)
          show ?thesis
          proof (cases "lib_Groq L (lib_getenv L ''GROQ_API_KEY'')")
            case (Inl e)
            with dotenv cwd uri exp autolog show ?thesis
              by (simp add: final_world_def main_py_def step_defs startup_def)
          next
            case (Inr u4)
            with dotenv cwd uri exp autolog have "setup_returns L d"
              by (simp add: setup_returns_def)
            from main_py_after_setup [OF this] cwd show ?thesis
              by (simp add: final_world_def setup_calls_def configured_def
                    split: sum.splits prod.splits)
          qed
        qed
      qed
    qed
  qed
qed

theorem tracking_set_once_before_autolog_witness:
  "GroqAutolog \<in> set (calls (final_world (demo_libs (Inr demo_reply)))) \<and>
   ChatCreate create_request \<in> set (calls (final_world (demo_libs (Inr demo_reply)))) \<and>
   length (filter is_set_tracking_uri (calls (final_world (demo_libs (Inr demo_reply))))) = 1 \<and>
   length (filter is_set_experiment (calls (final_world (demo_libs (Inr demo_reply))))) = 1 \<and>
   (\<exists>rest.
      calls (final_world (demo_libs (Inr demo_reply))) =
        [LoadDotenv, PathCwd, SetTrackingUri ''file:///srv/app/mlruns'', SetExperiment ''Groq'',
         GroqAutolog] @ rest \<and>
      filter is_set_tracking_uri rest = [] \<and> filter is_set_experiment rest = []) \<and>
   tracking_uri (mlflow (final_world (demo_libs (Inr demo_reply)))) =
     Some ''file:///srv/app/mlruns'' \<and>
   experiment_name (mlflow (final_world (demo_libs (Inr demo_reply)))) = Some ''Groq''"
proof -
  have run: "calls (final_world (demo_libs (Inr demo_reply))) =
      setup_calls (demo_libs (Inr demo_reply)) ''/srv/app'' @
        [ChatCreate create_request, Print ''Low latency matters.'']"
    by (simp add: final_world_def main_py_after_setup [OF demo_setup] demo_create demo_print
          py_getitem_0 demo_reply_def)
  have reached: "GroqAutolog \<in> set (calls (final_world (demo_libs (Inr demo_reply))))"
    "ChatCreate create_request \<in> set (calls (final_world (demo_libs (Inr demo_reply))))"
    by (simp_all add: run setup_calls_def)
  have here: "lib_cwd (demo_libs (Inr demo_reply)) = Inr ''/srv/app''"
    "mlruns_uri (demo_libs (Inr demo_reply)) ''/srv/app'' = ''file:///srv/app/mlruns''"
    by (simp_all add: demo_libs_def mlruns_uri_def)
  from tracking_set_once_before_autolog [of "demo_libs (Inr demo_reply)" create_request]
    reached here show ?thesis
    by auto
qed

end
